theory Spec2Isabelle
  imports Complex_Main
begin

section \<open>Arrays and the numerical library\<close>

text \<open>
  The program is Python on top of numpy and scipy. Its \<open>float64\<close> numbers are modelled by
  the real numbers: rounding and overflow are outside the model, and every statement
  below is a statement of exact arithmetic. Two-dimensional arrays are lists of rows.
  Where numpy would go on with \<open>inf\<close> or \<open>nan\<close> in an array after a division by zero,
  or with a \<open>nan\<close> from \<open>np.arccosh\<close>, the model stops with \<open>NonFinite\<close>, since no
  real number stands for these values, nor for the sign of a floating-point zero.
\<close>

datatype py_error = IndexError | ZeroDivisionError | LinAlgError | NonFinite

type_synonym vector = "real list"
type_synonym matrix = "real list list"

definition zeros :: "nat \<Rightarrow> nat \<Rightarrow> matrix" where
  "zeros n m = replicate n (replicate m 0)"

definition eye :: "nat \<Rightarrow> matrix" where
  "eye n = map (\<lambda>i. map (\<lambda>j. if i = j then 1 else 0) [0..<n]) [0..<n]"

definition ncols :: "matrix \<Rightarrow> nat" where
  "ncols A = (case A of [] \<Rightarrow> 0 | r # _ \<Rightarrow> length r)"

definition column :: "matrix \<Rightarrow> nat \<Rightarrow> vector" where
  "column A j = map (\<lambda>r. r ! j) A"

text \<open>\<open>np.dot\<close> of two matrices.\<close>

definition dot :: "matrix \<Rightarrow> matrix \<Rightarrow> matrix" where
  "dot A B = map (\<lambda>r. map (\<lambda>j. sum_list (map2 (*) r (column B j))) [0..<ncols B]) A"

definition mat_add :: "matrix \<Rightarrow> matrix \<Rightarrow> matrix" where
  "mat_add A B = map2 (map2 (+)) A B"

definition mat_sub :: "matrix \<Rightarrow> matrix \<Rightarrow> matrix" where
  "mat_sub A B = map2 (map2 (-)) A B"

definition outer :: "vector \<Rightarrow> vector \<Rightarrow> matrix" where
  "outer b c = map (\<lambda>x. map (\<lambda>y. x * y) c) b"

text \<open>\<open>np.fill_diagonal(a, v)\<close> for a square array and a vector of the same length.\<close>

definition fill_diagonal :: "matrix \<Rightarrow> vector \<Rightarrow> matrix" where
  "fill_diagonal A v = map (\<lambda>(i, r). r[i := v ! i]) (zip [0..<length A] A)"

text \<open>
  \<open>np.linalg.det\<close> and \<open>np.linalg.inv\<close> are library routines; they are modelled by what
  they compute in exact arithmetic: the determinant by expansion along the first row, the
  inverse as the adjugate over the determinant, with \<open>LinAlgError\<close> for a singular matrix.
\<close>

definition drop_col :: "nat \<Rightarrow> matrix \<Rightarrow> matrix" where
  "drop_col j A = map (\<lambda>r. take j r @ drop (Suc j) r) A"

function linalg_det :: "matrix \<Rightarrow> real" where
  "linalg_det [] = 1"
| "linalg_det (r # rs) =
     (\<Sum>j\<leftarrow>[0..<length r]. (- 1) ^ j * (r ! j) * linalg_det (drop_col j rs))"
  by pat_completeness auto
termination
  by (relation "measure length") (auto simp: drop_col_def)

definition minor :: "matrix \<Rightarrow> nat \<Rightarrow> nat \<Rightarrow> matrix" where
  "minor A i j = drop_col j (take i A @ drop (Suc i) A)"

definition linalg_inv :: "matrix \<Rightarrow> py_error + matrix" where
  "linalg_inv A =
     (if linalg_det A = 0 then Inl LinAlgError
      else Inr (map (\<lambda>i. map (\<lambda>j. (- 1) ^ (i + j) * linalg_det (minor A j i) / linalg_det A)
                      [0..<length A]) [0..<length A]))"

section \<open>Hamiltonian.py\<close>

text \<open>
  The class \<open>Hamiltonian\<close>: the constructor stores its arguments, builds the graph and
  calls \<open>buildK\<close>. The field \<open>K\<close> holds whatever \<open>buildK\<close> returns.
\<close>

type_synonym graph = "(nat \<times> nat) list \<times> nat list"

record Hamiltonian =
  L :: nat
  dim :: nat
  U :: real
  t :: real
  mu :: real
  graph :: graph

text \<open>
  \<open>buildGraph\<close>: the ring of \<open>L\<close> sites. After building the lists it prints
  \<open>edges[2]\<close>, which raises \<open>IndexError\<close> when there are fewer than three edges.
\<close>

definition buildGraph :: "nat \<Rightarrow> py_error + graph" where
  "buildGraph n =
     (let edges = map (\<lambda>i. (i, i + 1)) [0..<n - 1] @ [(n - 1, 0)];
          sites = [0..<n - 1] @ [n - 1]
      in if length edges \<le> 2 then Inl IndexError else Inr (edges, sites))"

text \<open>An indexed store \<open>K[i, j] = v\<close>; numpy raises \<open>IndexError\<close> out of range.\<close>

definition setitem :: "matrix \<Rightarrow> nat \<Rightarrow> nat \<Rightarrow> real \<Rightarrow> py_error + matrix" where
  "setitem A i j v =
     (if i < length A \<and> j < length (A ! i) then Inr (A[i := (A ! i)[j := v]])
      else Inl IndexError)"

fun hopping :: "real \<Rightarrow> (nat \<times> nat) list \<Rightarrow> matrix \<Rightarrow> py_error + matrix" where
  "hopping tt [] A = Inr A"
| "hopping tt ((a, b) # es) A =
     (case setitem A a b tt of Inl e \<Rightarrow> Inl e
      | Inr A1 \<Rightarrow> (case setitem A1 b a tt of Inl e \<Rightarrow> Inl e
                  | Inr A2 \<Rightarrow> hopping tt es A2))"

fun onsite :: "real \<Rightarrow> nat list \<Rightarrow> matrix \<Rightarrow> py_error + matrix" where
  "onsite d [] A = Inr A"
| "onsite d (s # ss) A =
     (case setitem A s s d of Inl e \<Rightarrow> Inl e
      | Inr A1 \<Rightarrow> (case setitem A1 s s d of Inl e \<Rightarrow> Inl e
                  | Inr A2 \<Rightarrow> onsite d ss A2))"

text \<open>
  \<open>buildK_array\<close> is the local array \<open>K\<close> of \<open>buildK\<close> at the moment line 60 prints it.
  The body of \<open>buildK\<close> ends there, without a \<open>return\<close> statement, so the call itself
  evaluates to \<open>None\<close>: that is \<open>buildK\<close>.
\<close>

definition buildK_array :: "Hamiltonian \<Rightarrow> py_error + matrix" where
  "buildK_array h =
     (let edges = fst (graph h); sites = snd (graph h); N = L h ^ dim h
      in case hopping (t h) edges (zeros N N) of Inl e \<Rightarrow> Inl e
         | Inr K1 \<Rightarrow> onsite (U h / 2 - mu h) sites K1)"

definition buildK :: "Hamiltonian \<Rightarrow> py_error + matrix option" where
  "buildK h = (case buildK_array h of Inl e \<Rightarrow> Inl e | Inr K1 \<Rightarrow> Inr None)"

section \<open>The field configuration and the model\<close>

text \<open>
  Modelled from the spec: the class \<open>Configuration\<close> (imported from the package \<open>lqmc\<close>,
  its file is not among the sources). The spec describes it as an \<open>N \<times> L_tau\<close> array of
  values in \<open>{-1, +1}\<close> with point read, column read, \<open>flip(i, l)\<close>, which for the discrete
  field is deterministic negation in place, and \<open>snapshot\<close>, an independent copy. The
  source calls them \<open>config[i, l]\<close>, \<open>config[:, l]\<close>, \<open>config.update(i, l)\<close> and
  \<open>config.copy()\<close>; the number of slices is \<open>config.time_steps\<close> in lqmc.py and
  \<open>config.n_t\<close> in mc_fast.py. The field is the list of the \<open>N\<close> rows; the loops of the
  source only use indices in range.
\<close>

record Configuration =
  cfg_time_steps :: nat
  field :: "int list list"

definition getitem :: "Configuration \<Rightarrow> nat \<Rightarrow> nat \<Rightarrow> int" where
  "getitem c i l = field c ! i ! l"

definition cfg_column :: "Configuration \<Rightarrow> nat \<Rightarrow> int list" where
  "cfg_column c l = map (\<lambda>r. r ! l) (field c)"

definition update :: "Configuration \<Rightarrow> nat \<Rightarrow> nat \<Rightarrow> Configuration" where
  "update c i l = c\<lparr>field := (field c)[i := (field c ! i)[l := - (field c ! i ! l)]]\<rparr>"

text \<open>
  Modelled from the spec: the class \<open>HubbardModel\<close> (also imported from \<open>lqmc\<close>): the
  interaction \<open>u\<close>, the number of sites and the matrix that \<open>ham_kinetic()\<close> returns.
\<close>

record HubbardModel =
  u :: real
  model_n_sites :: nat
  ham_kinetic :: matrix

section \<open>lqmc.py: the solver\<close>

text \<open>
  The fields of \<open>LatticeQMC\<close> that the computations read. The buffers \<open>self.exp_v\<close> and
  \<open>self.exp_v_inv\<close> start as zero matrices and only ever have their whole diagonal
  overwritten, so a call of \<open>_exp_v\<close> returns the diagonal matrix of the values it has just
  written; the status string and the sweep counter \<open>it\<close> are for printing only.
  \<open>scipy.linalg.expm\<close> is a parameter of the constructor, and the freshly drawn
  \<open>Configuration(n_sites, time_steps)\<close> is an argument.
  Python names with a leading underscore are written with the prefix \<open>lqmc_\<close>.
\<close>

record LatticeQMC =
  dtau :: real
  time_steps :: nat
  warm_sweeps :: nat
  meas_sweeps :: nat
  n_sites :: nat
  config :: Configuration
  det_mode :: bool
  ham_kin :: matrix
  lamb :: real
  exp_k :: matrix
  exp_k_inv :: matrix

definition mat_scale :: "real \<Rightarrow> matrix \<Rightarrow> matrix" where
  "mat_scale c A = map (map (\<lambda>x. c * x)) A"

text \<open>
  \<open>np.arccosh\<close> returns \<open>nan\<close> (with a warning, not an exception) for an argument below
  \<open>1\<close>; \<open>None\<close> stands for \<open>nan\<close>.
\<close>

definition np_arccosh :: "real \<Rightarrow> real option" where
  "np_arccosh x = (if x < 1 then None else Some (arcosh x))"

text \<open>
  The constructor. \<open>beta / time_steps\<close> raises \<open>ZeroDivisionError\<close> for zero time steps.
  Lines 52, 53 and 55 are the cached variables. When line 52 yields \<open>nan\<close>, which happens
  for \<open>u * dtau < 0\<close>, the constructor of the source still returns, with \<open>lamb = nan\<close>;
  the model stops with \<open>NonFinite\<close> there.
\<close>

definition LatticeQMC_init ::
  "(matrix \<Rightarrow> matrix) \<Rightarrow> HubbardModel \<Rightarrow> real \<Rightarrow> nat \<Rightarrow> nat \<Rightarrow> nat \<Rightarrow> bool \<Rightarrow> Configuration
     \<Rightarrow> py_error + LatticeQMC" where
  "LatticeQMC_init expm model beta steps warmup sweeps mode cfg =
     (if steps = 0 then Inl ZeroDivisionError
      else let dt = beta / real steps in
        case (if u model \<noteq> 0 then np_arccosh (exp (u model * dt / 2)) else Some 1) of
          None \<Rightarrow> Inl NonFinite
        | Some lam \<Rightarrow>
            Inr \<lparr>dtau = dt, time_steps = steps, warm_sweeps = warmup, meas_sweeps = sweeps,
                 n_sites = model_n_sites model, config = cfg, det_mode = mode,
                 ham_kin = ham_kinetic model,
                 lamb = lam,
                 exp_k = expm (mat_scale (1 * dt) (ham_kinetic model)),
                 exp_k_inv = expm (mat_scale (1 * dt) (ham_kinetic model))\<rparr>)"

text \<open>
  \<open>_exp_v(l, sigma, inv=True)\<close>: the parameter \<open>inv\<close> defaults to \<open>True\<close>; the calls that
  leave it out are written with \<open>True\<close> below.
\<close>

definition lqmc_exp_v :: "LatticeQMC \<Rightarrow> nat \<Rightarrow> int \<Rightarrow> bool \<Rightarrow> matrix" where
  "lqmc_exp_v s l sigma invf =
     (if invf then
        fill_diagonal (zeros (n_sites s) (n_sites s))
          (map (\<lambda>h. exp (- 1 * of_int sigma * lamb s * of_int h)) (cfg_column (config s) l))
      else
        fill_diagonal (zeros (n_sites s) (n_sites s))
          (map (\<lambda>h. exp (1 * of_int sigma * lamb s * of_int h)) (cfg_column (config s) l)))"

text \<open>
  \<open>_m\<close> and \<open>_m_cyclic\<close>. The constructor excludes zero time steps, so \<open>time_steps - 1\<close> is
  a natural number. \<open>reversed(range(a, b))\<close> is \<open>rev [a..<b]\<close>.
\<close>

definition lqmc_m :: "LatticeQMC \<Rightarrow> int \<Rightarrow> matrix" where
  "lqmc_m s sigma =
     (let lmax = cfg_time_steps (config s) - 1;
          b = dot (lqmc_exp_v s lmax sigma True) (exp_k s);
          b_prod = fold (\<lambda>l bp. dot bp (dot (exp_k s) (lqmc_exp_v s l sigma True)))
                     (rev [0..<lmax]) b
      in mat_add (eye (n_sites s)) b_prod)"

definition lqmc_m_cyclic :: "LatticeQMC \<Rightarrow> int \<Rightarrow> nat \<Rightarrow> matrix" where
  "lqmc_m_cyclic s sigma l =
     (let lmax = cfg_time_steps (config s);
          b = dot (lqmc_exp_v s l sigma True) (exp_k s);
          b_prod1 = fold (\<lambda>l_loop bp. dot bp (dot (exp_k s) (lqmc_exp_v s l_loop sigma True)))
                      (rev [0..<l]) b;
          b_prod2 = fold (\<lambda>l_loop bp. dot bp (dot (exp_k s) (lqmc_exp_v s l_loop sigma True)))
                      (rev [l + 1..<lmax]) b_prod1
      in mat_add (eye (n_sites s)) b_prod2)"

text \<open>
  \<open>_gf_tau\<close>: the array \<open>g\<close> of \<open>time_steps\<close> matrices, slice 0 set to \<open>g_beta\<close>, each
  further slice computed from the one before, and the whole returned reversed.
\<close>

fun gf_tau_loop :: "LatticeQMC \<Rightarrow> int \<Rightarrow> nat list \<Rightarrow> matrix list \<Rightarrow> matrix list" where
  "gf_tau_loop s sigma [] g = g"
| "gf_tau_loop s sigma (l # ls) g =
     (let exp_v = lqmc_exp_v s l sigma True;
          exp_v_inv = lqmc_exp_v s l sigma True;
          b = dot exp_v (exp_k s);
          b_inv = dot exp_v_inv (exp_k_inv s)
      in gf_tau_loop s sigma ls (g[l := dot (dot b_inv (g ! (l - 1))) b]))"

definition lqmc_gf_tau :: "LatticeQMC \<Rightarrow> matrix \<Rightarrow> int \<Rightarrow> matrix list" where
  "lqmc_gf_tau s g_beta sigma =
     rev (gf_tau_loop s sigma [1..<time_steps s]
            ((replicate (time_steps s) (zeros (n_sites s) (n_sites s)))[0 := g_beta]))"

definition lqmc_compute_m :: "LatticeQMC \<Rightarrow> matrix \<times> matrix" where
  "lqmc_compute_m s = (lqmc_m s 1, lqmc_m s (- 1))"

definition lqmc_compute_m_cyclic :: "LatticeQMC \<Rightarrow> nat \<Rightarrow> matrix \<times> matrix" where
  "lqmc_compute_m_cyclic s l = (lqmc_m_cyclic s 1 l, lqmc_m_cyclic s (- 1) l)"

definition lqmc_compute_gf_tau ::
  "LatticeQMC \<Rightarrow> matrix \<Rightarrow> matrix \<Rightarrow> matrix list \<times> matrix list" where
  "lqmc_compute_gf_tau s g_beta_up g_beta_dn =
     (lqmc_gf_tau s g_beta_up 1, lqmc_gf_tau s g_beta_dn (- 1))"

section \<open>lqmc.py: the Monte-Carlo loops\<close>

text \<open>
  \<open>np.random.rand()\<close> is modelled by a sequence \<open>rand\<close> of draws: iteration number \<open>k\<close> of
  a loop uses \<open>rand k\<close>. \<open>loop_generator\<close> yields the triples \<open>(sweep, i, l)\<close>.
\<close>

definition loop_generator :: "LatticeQMC \<Rightarrow> nat \<Rightarrow> (nat \<times> nat \<times> nat) list" where
  "loop_generator s sweeps =
     concat (map (\<lambda>sweep. map (\<lambda>(i, l). (sweep, i, l))
                           (List.product [0..<n_sites s] [0..<cfg_time_steps (config s)]))
                 [0..<sweeps])"

text \<open>
  \<open>np.random.rand() < new / old\<close> with \<open>new\<close> and \<open>old\<close> of type \<open>np.float64\<close>: a zero
  \<open>old\<close> does not raise; the quotient is \<open>inf\<close>, \<open>-inf\<close> or \<open>nan\<close>, depending on the
  sign that the floating-point zero carries, and the comparison is true for \<open>inf\<close> only.
  The reals have no signed zero: the model stops with \<open>NonFinite\<close> there.
\<close>

definition accept :: "real \<Rightarrow> real \<Rightarrow> real \<Rightarrow> py_error + bool" where
  "accept r new old = (if old = 0 then Inl NonFinite else Inr (r < new / old))"

subsection \<open>The slow warmup loop\<close>

text \<open>
  \<open>warmup_loop_det\<close> assigns \<open>self.config = old_config\<close> on rejection, after which both
  names denote the same object, and \<open>update\<close> mutates in place. The objects therefore
  live in a store, and \<open>self_config\<close> and \<open>old_config\<close> are addresses; \<open>copy()\<close> allocates.
  \<open>w_acc\<close> is the local \<open>acc\<close>, which has no value before the first iteration
  (\<open>False\<close> stands for that).
\<close>

record det_warm =
  store :: "Configuration list"
  self_config :: nat
  old_config :: nat
  w_old :: real
  w_acc :: bool

definition det_product :: "matrix \<times> matrix \<Rightarrow> real" where
  "det_product ms = linalg_det (fst ms) * linalg_det (snd ms)"

definition current :: "det_warm \<Rightarrow> Configuration" where
  "current w = store w ! self_config w"

definition warmup_det_start :: "LatticeQMC \<Rightarrow> det_warm" where
  "warmup_det_start s =
     \<lparr>store = [config s, config s], self_config = 0, old_config = 1,
      w_old = det_product (lqmc_compute_m s), w_acc = False\<rparr>"

definition warmup_det_step ::
  "LatticeQMC \<Rightarrow> det_warm \<Rightarrow> nat \<Rightarrow> nat \<Rightarrow> real \<Rightarrow> py_error + det_warm" where
  "warmup_det_step s w i l r =
     (let st1 = (store w)[self_config w := update (store w ! self_config w) i l];
          new = det_product (lqmc_compute_m (s\<lparr>config := st1 ! self_config w\<rparr>))
      in case accept r new (w_old w) of Inl e \<Rightarrow> Inl e
         | Inr acc \<Rightarrow>
             if acc
             then Inr (w\<lparr>store := st1 @ [st1 ! self_config w], old_config := length st1,
                         w_old := new, w_acc := True\<rparr>)
             else Inr (w\<lparr>store := st1, self_config := old_config w, w_acc := False\<rparr>))"

fun warmup_det_steps ::
  "LatticeQMC \<Rightarrow> (nat \<Rightarrow> real) \<Rightarrow> nat \<Rightarrow> (nat \<times> nat \<times> nat) list \<Rightarrow> det_warm
     \<Rightarrow> py_error + det_warm" where
  "warmup_det_steps s rand k [] w = Inr w"
| "warmup_det_steps s rand k ((sweep, i, l) # its) w =
     (case warmup_det_step s w i l (rand k) of Inl e \<Rightarrow> Inl e
      | Inr w1 \<Rightarrow> warmup_det_steps s rand (Suc k) its w1)"

definition warmup_loop_det :: "LatticeQMC \<Rightarrow> (nat \<Rightarrow> real) \<Rightarrow> py_error + det_warm" where
  "warmup_loop_det s rand =
     warmup_det_steps s rand 0 (loop_generator s (warm_sweeps s)) (warmup_det_start s)"

subsection \<open>The slow measurement loop\<close>

text \<open>
  \<open>measure_loop_det\<close> never reassigns \<open>self.config\<close>; it undoes a rejected flip by a second
  \<open>update\<close>. The state of the chain is kept apart from the accumulators \<open>g_total_up\<close>,
  \<open>g_total_dn\<close> and \<open>number\<close>.
\<close>

record det_chain =
  dc_config :: Configuration
  dc_old :: real
  dc_g_up :: "matrix list"
  dc_g_dn :: "matrix list"

definition measure_det_start :: "LatticeQMC \<Rightarrow> py_error + det_chain" where
  "measure_det_start s =
     (let ms = lqmc_compute_m s;
          g0 = replicate (time_steps s) (zeros (n_sites s) (n_sites s))
      in case linalg_inv (fst ms) of Inl e \<Rightarrow> Inl e
         | Inr gu \<Rightarrow> (case linalg_inv (snd ms) of Inl e \<Rightarrow> Inl e
            | Inr gd \<Rightarrow> Inr \<lparr>dc_config = config s, dc_old = det_product ms,
                             dc_g_up = g0[time_steps s - 1 := gu],
                             dc_g_dn = g0[time_steps s - 1 := gd]\<rparr>))"

definition measure_det_step ::
  "LatticeQMC \<Rightarrow> det_chain \<Rightarrow> nat \<Rightarrow> nat \<Rightarrow> real \<Rightarrow> py_error + det_chain" where
  "measure_det_step s ch i l r =
     (let c1 = update (dc_config ch) i l;
          ms = lqmc_compute_m_cyclic (s\<lparr>config := c1\<rparr>) l;
          new = det_product ms
      in case accept r new (dc_old ch) of Inl e \<Rightarrow> Inl e
         | Inr acc \<Rightarrow>
             if acc
             then (case linalg_inv (fst ms) of Inl e \<Rightarrow> Inl e
                   | Inr gu \<Rightarrow> (case linalg_inv (snd ms) of Inl e \<Rightarrow> Inl e
                      | Inr gd \<Rightarrow> Inr (ch\<lparr>dc_config := c1, dc_old := new,
                                           dc_g_up := (dc_g_up ch)[l := gu],
                                           dc_g_dn := (dc_g_dn ch)[l := gd]\<rparr>)))
             else Inr (ch\<lparr>dc_config := update c1 i l\<rparr>))"

definition det_iterations :: "LatticeQMC \<Rightarrow> (nat \<times> nat) list" where
  "det_iterations s =
     concat (map (\<lambda>sweep. concat (map (\<lambda>l. map (\<lambda>i. (i, l)) [0..<n_sites s])
                                      (rev [0..<time_steps s])))
                 [0..<meas_sweeps s])"

definition slice_add :: "matrix list \<Rightarrow> nat \<Rightarrow> matrix \<Rightarrow> matrix list" where
  "slice_add g_total l G = g_total[l := mat_add (g_total ! l) G]"

fun measure_det_steps ::
  "LatticeQMC \<Rightarrow> (nat \<Rightarrow> real) \<Rightarrow> (nat \<times> nat) list \<Rightarrow> det_chain \<Rightarrow> matrix list \<Rightarrow> matrix list \<Rightarrow> nat
     \<Rightarrow> py_error + (matrix list \<times> matrix list \<times> nat)" where
  "measure_det_steps s rand [] ch g_total_up g_total_dn number =
     Inr (g_total_up, g_total_dn, number)"
| "measure_det_steps s rand ((i, l) # its) ch g_total_up g_total_dn number =
     (case measure_det_step s ch i l (rand number) of Inl e \<Rightarrow> Inl e
      | Inr ch1 \<Rightarrow> measure_det_steps s rand its ch1
                     (slice_add g_total_up l (dc_g_up ch1 ! l))
                     (slice_add g_total_dn l (dc_g_dn ch1 ! l)) (number + 1))"

text \<open>
  \<open>measure_det_totals\<close> is the state of the accumulators when the loops end;
  \<open>measure_loop_det\<close> normalises them (lines 305 and 306). With no iteration at all the
  quotient is \<open>0 / 0\<close>.
\<close>

definition measure_det_totals ::
  "LatticeQMC \<Rightarrow> (nat \<Rightarrow> real) \<Rightarrow> py_error + (matrix list \<times> matrix list \<times> nat)" where
  "measure_det_totals s rand =
     (case measure_det_start s of Inl e \<Rightarrow> Inl e
      | Inr ch \<Rightarrow> measure_det_steps s rand (det_iterations s) ch
                    (replicate (time_steps s) (zeros (n_sites s) (n_sites s)))
                    (replicate (time_steps s) (zeros (n_sites s) (n_sites s))) 0)"

definition det_normalise :: "nat \<Rightarrow> nat \<Rightarrow> matrix list \<Rightarrow> matrix list" where
  "det_normalise number steps g_total =
     map (map (map (\<lambda>x. x / real number * real steps))) g_total"

definition measure_loop_det ::
  "LatticeQMC \<Rightarrow> (nat \<Rightarrow> real) \<Rightarrow> py_error + (matrix list \<times> matrix list)" where
  "measure_loop_det s rand =
     (case measure_det_totals s rand of Inl e \<Rightarrow> Inl e
      | Inr (g_total_up, g_total_dn, number) \<Rightarrow>
          if number = 0 then Inl NonFinite
          else Inr (det_normalise number (time_steps s) g_total_up,
                    det_normalise number (time_steps s) g_total_dn))"

subsection \<open>The fast measurement loop\<close>

text \<open>
  Lines 374 to 379 of \<open>measure_loop\<close> (the same expressions stand in \<open>warmup_loop\<close>): the
  acceptance ratio from the diagonal of the inverses of the freshly computed \<open>M\<close> matrices.
  \<open>np.linalg.inv\<close> raises on a singular matrix.
\<close>

definition fast_ratio :: "LatticeQMC \<Rightarrow> nat \<Rightarrow> nat \<Rightarrow> py_error + real" where
  "fast_ratio s i l =
     (let ms = lqmc_compute_m s;
          arg = 2 * lamb s * of_int (getitem (config s) i l)
      in case linalg_inv (fst ms) of Inl e \<Rightarrow> Inl e
         | Inr inv_up \<Rightarrow> (case linalg_inv (snd ms) of Inl e \<Rightarrow> Inl e
            | Inr inv_dn \<Rightarrow>
                let d_up = 1 + (1 - inv_up ! i ! i) * (exp (- arg) - 1);
                    d_dn = 1 + (1 - inv_dn ! i ! i) * (exp arg - 1)
                in Inr (d_up * d_dn)))"

text \<open>
  Lines 383 to 393 for one spin, with \<open>delta\<close> the value \<open>np.exp(-arg) - 1\<close> (up) or
  \<open>np.exp(+arg) - 1\<close> (down): the vector \<open>c\<close>, the vector \<open>b\<close> and the new matrix
  \<open>g - outer(b, c)\<close>. A zero denominator \<open>1 + c[i]\<close> makes numpy produce non-finite
  entries. Lines 126 to 137 of mc_fast.py are the same computation on \<open>g_tmp\<close>.
\<close>

definition rank1_update :: "nat \<Rightarrow> matrix \<Rightarrow> nat \<Rightarrow> real \<Rightarrow> py_error + matrix" where
  "rank1_update n g i delta =
     (let c0 = (replicate n 0)[i := delta];
          c = map2 (+) (map (\<lambda>x. - 1 * delta * x) (g ! i)) c0
      in if 1 + c ! i = 0 then Inl NonFinite
         else let b = map (\<lambda>x. x / (1 + c ! i)) (column g i)
              in Inr (mat_sub g (outer b c)))"

record fast_chain =
  f_config :: Configuration
  g_beta_up :: matrix
  g_beta_dn :: matrix
  g_tmp_up :: "matrix list"
  g_tmp_dn :: "matrix list"

definition measure_start :: "LatticeQMC \<Rightarrow> py_error + fast_chain" where
  "measure_start s =
     (let ms = lqmc_compute_m s
      in case linalg_inv (fst ms) of Inl e \<Rightarrow> Inl e
         | Inr gu \<Rightarrow> (case linalg_inv (snd ms) of Inl e \<Rightarrow> Inl e
            | Inr gd \<Rightarrow> Inr \<lparr>f_config = config s, g_beta_up = gu, g_beta_dn = gd,
                             g_tmp_up = fst (lqmc_compute_gf_tau s gu gd),
                             g_tmp_dn = snd (lqmc_compute_gf_tau s gu gd)\<rparr>))"

definition measure_step ::
  "LatticeQMC \<Rightarrow> fast_chain \<Rightarrow> nat \<Rightarrow> nat \<Rightarrow> real \<Rightarrow> py_error + fast_chain" where
  "measure_step s ch i l r =
     (let s1 = s\<lparr>config := f_config ch\<rparr>;
          arg = 2 * lamb s * of_int (getitem (f_config ch) i l)
      in case fast_ratio s1 i l of Inl e \<Rightarrow> Inl e
         | Inr ratio \<Rightarrow>
             if r < ratio
             then (case rank1_update (n_sites s) (g_beta_up ch) i (exp (- arg) - 1) of
                     Inl e \<Rightarrow> Inl e
                   | Inr gu \<Rightarrow>
                      (case rank1_update (n_sites s) (g_beta_dn ch) i (exp arg - 1) of
                         Inl e \<Rightarrow> Inl e
                       | Inr gd \<Rightarrow>
                           Inr \<lparr>f_config = update (f_config ch) i l,
                                g_beta_up = gu, g_beta_dn = gd,
                                g_tmp_up = fst (lqmc_compute_gf_tau s1 gu gd),
                                g_tmp_dn = snd (lqmc_compute_gf_tau s1 gu gd)\<rparr>))
             else Inr ch)"

text \<open>
  The accumulators \<open>gf_up\<close> and \<open>gf_dn\<close> start as the Python number \<open>0\<close> and become arrays
  with the first \<open>+=\<close>, which adds the number to every entry.
\<close>

datatype 'a accum = Scalar real | Array 'a

definition tensor_add :: "matrix list \<Rightarrow> matrix list \<Rightarrow> matrix list" where
  "tensor_add S T = map2 mat_add S T"

fun iadd_tensor :: "matrix list accum \<Rightarrow> matrix list \<Rightarrow> matrix list accum" where
  "iadd_tensor (Scalar a) T = Array (map (map (map (\<lambda>x. a + x))) T)"
| "iadd_tensor (Array S) T = Array (tensor_add S T)"

fun div_tensor :: "matrix list accum \<Rightarrow> nat \<Rightarrow> matrix list accum" where
  "div_tensor (Scalar a) number = Scalar (a / real number)"
| "div_tensor (Array S) number = Array (map (map (map (\<lambda>x. x / real number))) S)"

fun measure_steps ::
  "LatticeQMC \<Rightarrow> (nat \<Rightarrow> real) \<Rightarrow> (nat \<times> nat \<times> nat) list \<Rightarrow> fast_chain
     \<Rightarrow> matrix list accum \<Rightarrow> matrix list accum \<Rightarrow> nat
     \<Rightarrow> py_error + (matrix list accum \<times> matrix list accum \<times> nat)" where
  "measure_steps s rand [] ch gf_up gf_dn number = Inr (gf_up, gf_dn, number)"
| "measure_steps s rand ((sweep, i, l) # its) ch gf_up gf_dn number =
     (case measure_step s ch i l (rand number) of Inl e \<Rightarrow> Inl e
      | Inr ch1 \<Rightarrow> measure_steps s rand its ch1
                     (iadd_tensor gf_up (g_tmp_up ch1)) (iadd_tensor gf_dn (g_tmp_dn ch1))
                     (number + 1))"

definition measure_totals ::
  "LatticeQMC \<Rightarrow> (nat \<Rightarrow> real) \<Rightarrow> py_error + (matrix list accum \<times> matrix list accum \<times> nat)" where
  "measure_totals s rand =
     (case measure_start s of Inl e \<Rightarrow> Inl e
      | Inr ch \<Rightarrow> measure_steps s rand (loop_generator s (meas_sweeps s)) ch
                    (Scalar 0) (Scalar 0) 0)"

definition measure_loop ::
  "LatticeQMC \<Rightarrow> (nat \<Rightarrow> real) \<Rightarrow> py_error + (matrix list accum \<times> matrix list accum)" where
  "measure_loop s rand =
     (case measure_totals s rand of Inl e \<Rightarrow> Inl e
      | Inr (gf_up, gf_dn, number) \<Rightarrow>
          if number = 0 then Inl NonFinite
          else Inr (div_tensor gf_up number, div_tensor gf_dn number))"

section \<open>mc_fast.py\<close>

text \<open>
  \<open>compute_m\<close> calls \<open>expm\<close> itself, on \<open>dtau * ham_kin\<close> and on the diagonal matrix
  \<open>sigma * lamb * v\<close>; \<open>expm\<close> is a parameter here too. As in \<open>_m\<close>, the configuration
  has at least one time slice.
\<close>

definition diag_of :: "nat \<Rightarrow> int list \<Rightarrow> matrix" where
  "diag_of n hs = fill_diagonal (zeros n n) (map of_int hs)"

definition compute_m ::
  "(matrix \<Rightarrow> matrix) \<Rightarrow> matrix \<Rightarrow> Configuration \<Rightarrow> real \<Rightarrow> real \<Rightarrow> int \<Rightarrow> matrix" where
  "compute_m expm hk c lam dt sigma =
     (let n = length hk;
          expk = expm (mat_scale dt hk);
          lmax = cfg_time_steps c - 1;
          b = dot expk (expm (mat_scale (of_int sigma * lam) (diag_of n (cfg_column c lmax))));
          b_prod = fold (\<lambda>l bp. dot bp
                      (dot expk (expm (mat_scale (of_int sigma * lam) (diag_of n (cfg_column c l))))))
                     (rev [1..<lmax]) b
      in mat_add (eye n) b_prod)"

text \<open>
  \<open>scipy.linalg.expm\<close> is a parameter of the model. Two closed forms of the matrix
  exponential stand for it at the concrete inputs below. On a diagonal matrix it is the
  diagonal matrix of the exponentials of the diagonal entries: \<open>expm_diag\<close>. On a
  matrix \<open>[[a, b], [b, a]] = a I + b X\<close>, where \<open>X\<close> swaps the two coordinates and
  \<open>X X = I\<close>, the exponential series sums to \<open>exp a (cosh b I + sinh b X)\<close>: \<open>expm_sym2\<close>.
\<close>

definition expm_diag :: "matrix \<Rightarrow> matrix" where
  "expm_diag A = map (\<lambda>(i, r). (replicate (length r) 0)[i := exp (r ! i)]) (zip [0..<length A] A)"

definition expm_sym2 :: "matrix \<Rightarrow> matrix" where
  "expm_sym2 A =
     (let a = A ! 0 ! 0; b = A ! 0 ! 1
      in [[exp a * cosh b, exp a * sinh b], [exp a * sinh b, exp a * cosh b]])"

text \<open>
  \<open>measure_gf\<close>: the loop of mc_fast.py. It keeps one matrix per spin, \<open>g_tmp_up\<close> and
  \<open>g_tmp_dn\<close>, and recomputes the \<open>M\<close> matrices with \<open>compute_m\<close> in every iteration.
\<close>

record gf_chain =
  mg_config :: Configuration
  mg_tmp_up :: matrix
  mg_tmp_dn :: matrix

definition measure_gf_start ::
  "(matrix \<Rightarrow> matrix) \<Rightarrow> HubbardModel \<Rightarrow> Configuration \<Rightarrow> real \<Rightarrow> real \<Rightarrow> py_error + gf_chain" where
  "measure_gf_start expm model c dt lam =
     (let hk = ham_kinetic model;
          m_up = compute_m expm hk c lam dt 1;
          m_dn = compute_m expm hk c lam dt (- 1)
      in case linalg_inv m_up of Inl e \<Rightarrow> Inl e
         | Inr gu \<Rightarrow> (case linalg_inv m_dn of Inl e \<Rightarrow> Inl e
            | Inr gd \<Rightarrow> Inr \<lparr>mg_config = c, mg_tmp_up = gu, mg_tmp_dn = gd\<rparr>))"

definition measure_gf_step ::
  "(matrix \<Rightarrow> matrix) \<Rightarrow> HubbardModel \<Rightarrow> real \<Rightarrow> real \<Rightarrow> gf_chain \<Rightarrow> nat \<Rightarrow> nat \<Rightarrow> real
     \<Rightarrow> py_error + gf_chain" where
  "measure_gf_step expm model dt lam ch i l r =
     (let hk = ham_kinetic model; n = model_n_sites model; c = mg_config ch;
          m_up = compute_m expm hk c lam dt 1;
          m_dn = compute_m expm hk c lam dt (- 1)
      in case linalg_inv m_up of Inl e \<Rightarrow> Inl e
         | Inr inv_up \<Rightarrow> (case linalg_inv m_dn of Inl e \<Rightarrow> Inl e
            | Inr inv_dn \<Rightarrow>
                let d_up = 1 + (1 - inv_up ! i ! i) * (exp (- 2 * lam * of_int (getitem c i l)) - 1);
                    d_dn = 1 + (1 - inv_dn ! i ! i) * (exp (2 * lam * of_int (getitem c i l)) - 1);
                    ratio = d_up * d_dn
                in if r < ratio
                   then (case rank1_update n (mg_tmp_up ch) i
                                 (exp (- 2 * lam * of_int (getitem c i l)) - 1) of
                           Inl e \<Rightarrow> Inl e
                         | Inr gu \<Rightarrow>
                            (case rank1_update n (mg_tmp_dn ch) i
                                    (exp (2 * lam * of_int (getitem c i l)) - 1) of
                               Inl e \<Rightarrow> Inl e
                             | Inr gd \<Rightarrow> Inr \<lparr>mg_config = update c i l,
                                              mg_tmp_up = gu, mg_tmp_dn = gd\<rparr>))
                   else Inr ch))"

fun iadd_matrix :: "matrix accum \<Rightarrow> matrix \<Rightarrow> matrix accum" where
  "iadd_matrix (Scalar a) T = Array (map (map (\<lambda>x. a + x)) T)"
| "iadd_matrix (Array S) T = Array (mat_add S T)"

fun div_matrix :: "matrix accum \<Rightarrow> nat \<Rightarrow> matrix accum" where
  "div_matrix (Scalar a) number = Scalar (a / real number)"
| "div_matrix (Array S) number = Array (map (map (\<lambda>x. x / real number)) S)"

fun measure_gf_steps ::
  "(matrix \<Rightarrow> matrix) \<Rightarrow> HubbardModel \<Rightarrow> real \<Rightarrow> real \<Rightarrow> (nat \<Rightarrow> real) \<Rightarrow> (nat \<times> nat) list
     \<Rightarrow> gf_chain \<Rightarrow> matrix accum \<Rightarrow> matrix accum \<Rightarrow> nat
     \<Rightarrow> py_error + (matrix accum \<times> matrix accum \<times> nat)" where
  "measure_gf_steps expm model dt lam rand [] ch gf_up gf_dn number =
     Inr (gf_up, gf_dn, number)"
| "measure_gf_steps expm model dt lam rand ((i, l) # its) ch gf_up gf_dn number =
     (case measure_gf_step expm model dt lam ch i l (rand number) of Inl e \<Rightarrow> Inl e
      | Inr ch1 \<Rightarrow> measure_gf_steps expm model dt lam rand its ch1
                     (iadd_matrix gf_up (mg_tmp_up ch1)) (iadd_matrix gf_dn (mg_tmp_dn ch1))
                     (number + 1))"

definition gf_iterations :: "HubbardModel \<Rightarrow> Configuration \<Rightarrow> nat \<Rightarrow> (nat \<times> nat) list" where
  "gf_iterations model c sweeps =
     concat (map (\<lambda>sweep. List.product [0..<model_n_sites model] [0..<cfg_time_steps c])
                 [0..<sweeps])"

definition measure_gf_totals ::
  "(matrix \<Rightarrow> matrix) \<Rightarrow> HubbardModel \<Rightarrow> Configuration \<Rightarrow> real \<Rightarrow> real \<Rightarrow> nat \<Rightarrow> (nat \<Rightarrow> real)
     \<Rightarrow> py_error + (matrix accum \<times> matrix accum \<times> nat)" where
  "measure_gf_totals expm model c dt lam sweeps rand =
     (case measure_gf_start expm model c dt lam of Inl e \<Rightarrow> Inl e
      | Inr ch \<Rightarrow> measure_gf_steps expm model dt lam rand (gf_iterations model c sweeps) ch
                    (Scalar 0) (Scalar 0) 0)"

definition measure_gf ::
  "(matrix \<Rightarrow> matrix) \<Rightarrow> HubbardModel \<Rightarrow> Configuration \<Rightarrow> real \<Rightarrow> real \<Rightarrow> nat \<Rightarrow> (nat \<Rightarrow> real)
     \<Rightarrow> py_error + (matrix accum \<times> matrix accum)" where
  "measure_gf expm model c dt lam sweeps rand =
     (case measure_gf_totals expm model c dt lam sweeps rand of Inl e \<Rightarrow> Inl e
      | Inr (gf_up, gf_dn, number) \<Rightarrow>
          if number = 0 then Inl NonFinite
          else Inr (div_matrix gf_up number, div_matrix gf_dn number))"

section \<open>The product the specification describes\<close>

text \<open>
  Written from the words of the specification, not from the source:
  \<open>B_sigma(l) = exp(sigma lambda V(l)) exp(dtau H_kin)\<close> and
  \<open>M_sigma = I + B_sigma(L_tau - 1) B_sigma(L_tau - 2) \<dots> B_sigma(0)\<close>, with the
  propagator \<open>exp(dtau H_kin)\<close> given as \<open>expk\<close>.
\<close>

definition B_spec :: "matrix \<Rightarrow> real \<Rightarrow> Configuration \<Rightarrow> int \<Rightarrow> nat \<Rightarrow> matrix" where
  "B_spec expk lam c sigma l =
     dot (fill_diagonal (zeros (length (field c)) (length (field c)))
            (map (\<lambda>h. exp (of_int sigma * lam * of_int h)) (cfg_column c l))) expk"

definition M_spec :: "matrix \<Rightarrow> real \<Rightarrow> Configuration \<Rightarrow> int \<Rightarrow> matrix" where
  "M_spec expk lam c sigma =
     mat_add (eye (length (field c)))
       (fold (\<lambda>l P. dot P (B_spec expk lam c sigma l)) (rev [0..<cfg_time_steps c])
          (eye (length (field c))))"

section \<open>Histories of the measurement loops\<close>

text \<open>
  The history of a measurement loop is the list of the chain states after each of its
  iterations, one entry per iteration whether the move was accepted or not; it is
  computed by the step functions above alone, without the accumulators. For
  \<open>measure_loop_det\<close> each entry carries the slice \<open>l\<close> of its iteration.
  \<open>sum_tensors\<close>, \<open>sum_matrices\<close> and \<open>sum_slices\<close> add up a list of contributions
  the way the loops do, starting from \<open>0\<close> or from the zero array.
\<close>

fun measure_history_from ::
  "LatticeQMC \<Rightarrow> (nat \<Rightarrow> real) \<Rightarrow> nat \<Rightarrow> (nat \<times> nat \<times> nat) list \<Rightarrow> fast_chain
     \<Rightarrow> py_error + fast_chain list" where
  "measure_history_from s rand k [] ch = Inr []"
| "measure_history_from s rand k ((sweep, i, l) # its) ch =
     (case measure_step s ch i l (rand k) of Inl e \<Rightarrow> Inl e
      | Inr ch1 \<Rightarrow> (case measure_history_from s rand (Suc k) its ch1 of Inl e \<Rightarrow> Inl e
                   | Inr chs \<Rightarrow> Inr (ch1 # chs)))"

definition measure_history :: "LatticeQMC \<Rightarrow> (nat \<Rightarrow> real) \<Rightarrow> py_error + fast_chain list" where
  "measure_history s rand =
     (case measure_start s of Inl e \<Rightarrow> Inl e
      | Inr ch \<Rightarrow> measure_history_from s rand 0 (loop_generator s (meas_sweeps s)) ch)"

fun measure_det_history_from ::
  "LatticeQMC \<Rightarrow> (nat \<Rightarrow> real) \<Rightarrow> nat \<Rightarrow> (nat \<times> nat) list \<Rightarrow> det_chain
     \<Rightarrow> py_error + (nat \<times> det_chain) list" where
  "measure_det_history_from s rand k [] ch = Inr []"
| "measure_det_history_from s rand k ((i, l) # its) ch =
     (case measure_det_step s ch i l (rand k) of Inl e \<Rightarrow> Inl e
      | Inr ch1 \<Rightarrow> (case measure_det_history_from s rand (Suc k) its ch1 of Inl e \<Rightarrow> Inl e
                   | Inr h \<Rightarrow> Inr ((l, ch1) # h)))"

definition measure_det_history ::
  "LatticeQMC \<Rightarrow> (nat \<Rightarrow> real) \<Rightarrow> py_error + (nat \<times> det_chain) list" where
  "measure_det_history s rand =
     (case measure_det_start s of Inl e \<Rightarrow> Inl e
      | Inr ch \<Rightarrow> measure_det_history_from s rand 0 (det_iterations s) ch)"

fun measure_gf_history_from ::
  "(matrix \<Rightarrow> matrix) \<Rightarrow> HubbardModel \<Rightarrow> real \<Rightarrow> real \<Rightarrow> (nat \<Rightarrow> real) \<Rightarrow> nat \<Rightarrow> (nat \<times> nat) list
     \<Rightarrow> gf_chain \<Rightarrow> py_error + gf_chain list" where
  "measure_gf_history_from expm model dt lam rand k [] ch = Inr []"
| "measure_gf_history_from expm model dt lam rand k ((i, l) # its) ch =
     (case measure_gf_step expm model dt lam ch i l (rand k) of Inl e \<Rightarrow> Inl e
      | Inr ch1 \<Rightarrow>
         (case measure_gf_history_from expm model dt lam rand (Suc k) its ch1 of Inl e \<Rightarrow> Inl e
          | Inr chs \<Rightarrow> Inr (ch1 # chs)))"

definition measure_gf_history ::
  "(matrix \<Rightarrow> matrix) \<Rightarrow> HubbardModel \<Rightarrow> Configuration \<Rightarrow> real \<Rightarrow> real \<Rightarrow> nat \<Rightarrow> (nat \<Rightarrow> real)
     \<Rightarrow> py_error + gf_chain list" where
  "measure_gf_history expm model c dt lam sweeps rand =
     (case measure_gf_start expm model c dt lam of Inl e \<Rightarrow> Inl e
      | Inr ch \<Rightarrow> measure_gf_history_from expm model dt lam rand 0
                    (gf_iterations model c sweeps) ch)"

definition sum_tensors :: "matrix list list \<Rightarrow> matrix list accum" where
  "sum_tensors Ts = fold (\<lambda>T a. iadd_tensor a T) Ts (Scalar 0)"

definition sum_matrices :: "matrix list \<Rightarrow> matrix accum" where
  "sum_matrices Ts = fold (\<lambda>T a. iadd_matrix a T) Ts (Scalar 0)"

definition sum_slices :: "nat \<Rightarrow> nat \<Rightarrow> (nat \<times> matrix) list \<Rightarrow> matrix list" where
  "sum_slices steps n cs =
     fold (\<lambda>(l, G) tot. slice_add tot l G) cs (replicate steps (zeros n n))"

section \<open>Concrete runs\<close>

text \<open>
  A chain of one site without hopping, \<open>ham_kin = [[0]]\<close>, with \<open>u dtau / 2 = ln (5 / 4)\<close>,
  for which the constructor computes \<open>lamb = arccosh (5 / 4) = ln 2\<close> and both cached
  propagators are \<open>[[1]]\<close>. \<open>one_site steps f\<close> is the solver the constructor returns
  for \<open>beta = steps\<close> and the initial field \<open>f\<close> (lemma \<open>one_site_init\<close> below).
\<close>

definition one_site_model :: HubbardModel where
  "one_site_model = \<lparr>u = 2 * ln (5 / 4), model_n_sites = 1, ham_kinetic = [[0]]\<rparr>"

definition one_site :: "nat \<Rightarrow> int list list \<Rightarrow> LatticeQMC" where
  "one_site steps f =
     \<lparr>dtau = 1, time_steps = steps, warm_sweeps = 1, meas_sweeps = 1, n_sites = 1,
      config = \<lparr>cfg_time_steps = steps, field = f\<rparr>, det_mode = False, ham_kin = [[0]],
      lamb = ln 2, exp_k = [[1]], exp_k_inv = [[1]]\<rparr>"

text \<open>
  Two sites with hopping only, \<open>ham_kin = [[0, -t], [-t, 0]]\<close> with \<open>t dtau = ln 2\<close>, and
  three time slices. The propagator is \<open>[[cosh (ln 2), - sinh (ln 2)], [- sinh (ln 2),
  cosh (ln 2)]] = [[5/4, -3/4], [-3/4, 5/4]]\<close>, and \<open>lamb = ln 2\<close> as before.
  \<open>two_sites f\<close> is the solver the constructor returns for \<open>beta = 3\<close> and the initial
  field \<open>f\<close> (lemma \<open>two_sites_init\<close> below).
\<close>

definition two_sites_model :: HubbardModel where
  "two_sites_model =
     \<lparr>u = 2 * ln (5 / 4), model_n_sites = 2, ham_kinetic = [[0, - ln 2], [- ln 2, 0]]\<rparr>"

definition two_sites :: "int list list \<Rightarrow> LatticeQMC" where
  "two_sites f =
     \<lparr>dtau = 1, time_steps = 3, warm_sweeps = 1, meas_sweeps = 1, n_sites = 2,
      config = \<lparr>cfg_time_steps = 3, field = f\<rparr>, det_mode = True,
      ham_kin = [[0, - ln 2], [- ln 2, 0]],
      lamb = ln 2, exp_k = [[5 / 4, - (3 / 4)], [- (3 / 4), 5 / 4]],
      exp_k_inv = [[5 / 4, - (3 / 4)], [- (3 / 4), 5 / 4]]\<rparr>"

text \<open>
  Three measurement runs with accepted and rejected moves. \<open>fast_run_history\<close> is the
  history of \<open>measure_loop\<close> on one site and four slices from the field
  \<open>[[1, -1, -1, -1]]\<close> with every draw \<open>9/10\<close>: the ratios of the four iterations are
  \<open>16/25\<close>, \<open>289/100\<close>, \<open>25/16\<close> and \<open>16/25\<close>, so the first and the last move are
  rejected. \<open>gf_run_history\<close> is the history of \<open>measure_gf\<close> on one site and three
  slices from the field \<open>[[1, 1, 1]]\<close> with the draws \<open>1/2\<close>, \<open>9/10\<close>, \<open>1/2\<close>: every
  ratio is \<open>16/25\<close> and the second move is rejected. \<open>det_run_history\<close> is the history
  of \<open>measure_loop_det\<close> on one site and two slices from the field \<open>[[1, 1]]\<close> with two
  sweeps and the draws \<open>99/100\<close>, \<open>1/2\<close>, \<open>99/100\<close>, \<open>99/100\<close>: the ratios are
  \<open>16/25\<close>, \<open>16/25\<close>, \<open>25/16\<close> and \<open>16/25\<close>, so the first and the last move are
  rejected and each slice receives two contributions.
\<close>

definition fast_run_history :: "fast_chain list" where
  "fast_run_history =
     [\<lparr>f_config = \<lparr>cfg_time_steps = 4, field = [[1, - 1, - 1, - 1]]\<rparr>,
       g_beta_up = [[1 / 5]], g_beta_dn = [[4 / 5]],
       g_tmp_up = [[[64 / 5]], [[16 / 5]], [[4 / 5]], [[1 / 5]]],
       g_tmp_dn = [[[1 / 80]], [[1 / 20]], [[1 / 5]], [[4 / 5]]]\<rparr>,
      \<lparr>f_config = \<lparr>cfg_time_steps = 4, field = [[1, 1, - 1, - 1]]\<rparr>,
       g_beta_up = [[1 / 17]], g_beta_dn = [[16 / 17]],
       g_tmp_up = [[[64 / 17]], [[16 / 17]], [[4 / 17]], [[1 / 17]]],
       g_tmp_dn = [[[1 / 68]], [[1 / 17]], [[4 / 17]], [[16 / 17]]]\<rparr>,
      \<lparr>f_config = \<lparr>cfg_time_steps = 4, field = [[1, 1, 1, - 1]]\<rparr>,
       g_beta_up = [[1 / 65]], g_beta_dn = [[64 / 65]],
       g_tmp_up = [[[4 / 65]], [[1 / 65]], [[1 / 260]], [[1 / 65]]],
       g_tmp_dn = [[[16 / 65]], [[64 / 65]], [[256 / 65]], [[64 / 65]]]\<rparr>,
      \<lparr>f_config = \<lparr>cfg_time_steps = 4, field = [[1, 1, 1, - 1]]\<rparr>,
       g_beta_up = [[1 / 65]], g_beta_dn = [[64 / 65]],
       g_tmp_up = [[[4 / 65]], [[1 / 65]], [[1 / 260]], [[1 / 65]]],
       g_tmp_dn = [[[16 / 65]], [[64 / 65]], [[256 / 65]], [[64 / 65]]]\<rparr>]"

definition gf_run_history :: "gf_chain list" where
  "gf_run_history =
     [\<lparr>mg_config = \<lparr>cfg_time_steps = 3, field = [[- 1, 1, 1]]\<rparr>,
       mg_tmp_up = [[1 / 2]], mg_tmp_dn = [[1 / 2]]\<rparr>,
      \<lparr>mg_config = \<lparr>cfg_time_steps = 3, field = [[- 1, 1, 1]]\<rparr>,
       mg_tmp_up = [[1 / 2]], mg_tmp_dn = [[1 / 2]]\<rparr>,
      \<lparr>mg_config = \<lparr>cfg_time_steps = 3, field = [[- 1, 1, - 1]]\<rparr>,
       mg_tmp_up = [[4 / 5]], mg_tmp_dn = [[1 / 5]]\<rparr>]"

definition det_run_history :: "(nat \<times> det_chain) list" where
  "det_run_history =
     [(1, \<lparr>dc_config = \<lparr>cfg_time_steps = 2, field = [[1, 1]]\<rparr>, dc_old = 25 / 4,
           dc_g_up = [[[0]], [[4 / 5]]], dc_g_dn = [[[0]], [[1 / 5]]]\<rparr>),
      (0, \<lparr>dc_config = \<lparr>cfg_time_steps = 2, field = [[- 1, 1]]\<rparr>, dc_old = 4,
           dc_g_up = [[[1 / 2]], [[4 / 5]]], dc_g_dn = [[[1 / 2]], [[1 / 5]]]\<rparr>),
      (1, \<lparr>dc_config = \<lparr>cfg_time_steps = 2, field = [[- 1, - 1]]\<rparr>, dc_old = 25 / 4,
           dc_g_up = [[[1 / 2]], [[1 / 5]]], dc_g_dn = [[[1 / 2]], [[4 / 5]]]\<rparr>),
      (0, \<lparr>dc_config = \<lparr>cfg_time_steps = 2, field = [[- 1, - 1]]\<rparr>, dc_old = 25 / 4,
           dc_g_up = [[[1 / 2]], [[1 / 5]]], dc_g_dn = [[[1 / 2]], [[4 / 5]]]\<rparr>)]"

section \<open>Results\<close>

subsection \<open>Evaluation rules and the concrete solvers\<close>

lemmas array_simps = zeros_def eye_def ncols_def column_def dot_def mat_add_def mat_sub_def
  outer_def fill_diagonal_def drop_col_def minor_def linalg_inv_def mat_scale_def

lemmas lqmc_simps = lqmc_m_def lqmc_m_cyclic_def lqmc_exp_v_def lqmc_compute_m_def
  lqmc_compute_m_cyclic_def lqmc_gf_tau_def lqmc_compute_gf_tau_def cfg_column_def
  getitem_def update_def det_product_def

lemma arcosh_five_quarters: "arcosh (5 / 4 :: real) = ln 2"
proof -
  have "((5 / 4)\<^sup>2 - 1 :: real) = (3 / 4)\<^sup>2"
    by (simp add: power2_eq_square)
  then have r: "sqrt ((5 / 4)\<^sup>2 - 1 :: real) = 3 / 4"
    by (simp only: real_sqrt_abs)
  have "arcosh (5 / 4 :: real) = ln (5 / 4 + sqrt ((5 / 4)\<^sup>2 - 1))"
    by (rule arcosh_real_def) simp
  also have "\<dots> = ln (5 / 4 + 3 / 4)"
    by (simp only: r)
  also have "\<dots> = ln 2"
    by simp
  finally show ?thesis .
qed

lemma one_site_lamb: "arcosh (exp (2 * ln (5 / 4) * 1 / 2 :: real)) = ln 2"
proof -
  have "exp (2 * ln (5 / 4) * 1 / 2 :: real) = 5 / 4" by simp
  then show ?thesis by (simp only: arcosh_five_quarters)
qed


lemma init_nonzero_u:
  assumes "0 < steps" and "u model \<noteq> 0"
    and "1 \<le> exp (u model * (beta / real steps) / 2)"
  shows "LatticeQMC_init expm model beta steps warmup sweeps mode cfg =
           Inr \<lparr>dtau = beta / real steps, time_steps = steps, warm_sweeps = warmup,
                meas_sweeps = sweeps, n_sites = model_n_sites model, config = cfg,
                det_mode = mode, ham_kin = ham_kinetic model,
                lamb = arcosh (exp (u model * (beta / real steps) / 2)),
                exp_k = expm (mat_scale (1 * (beta / real steps)) (ham_kinetic model)),
                exp_k_inv = expm (mat_scale (1 * (beta / real steps)) (ham_kinetic model))\<rparr>"
  using assms by (simp add: LatticeQMC_init_def np_arccosh_def Let_def)


lemma one_site_init:
  assumes "0 < steps"
  shows "LatticeQMC_init expm_diag one_site_model (real steps) steps 1 1 False
           \<lparr>cfg_time_steps = steps, field = f\<rparr> = Inr (one_site steps f)"
proof -
  have dt: "real steps / real steps = 1" using assms by simp
  have nz: "u one_site_model \<noteq> 0" by (simp add: one_site_model_def)
  have lam: "arcosh (exp (u one_site_model * 1 / 2)) = ln 2"
    using one_site_lamb by (simp add: one_site_model_def)
  have ek: "expm_diag (mat_scale (1 * 1) [[0]]) = [[1]]"
    by (simp add: expm_diag_def mat_scale_def)
  have ns: "model_n_sites one_site_model = 1" "ham_kinetic one_site_model = [[0]]"
    by (simp_all add: one_site_model_def)
  have ge: "1 \<le> exp (u one_site_model * (real steps / real steps) / 2)"
    unfolding dt by (simp add: one_site_model_def)
  have "LatticeQMC_init expm_diag one_site_model (real steps) steps 1 1 False
          \<lparr>cfg_time_steps = steps, field = f\<rparr> =
        Inr \<lparr>dtau = 1, time_steps = steps, warm_sweeps = 1, meas_sweeps = 1,
             n_sites = model_n_sites one_site_model,
             config = \<lparr>cfg_time_steps = steps, field = f\<rparr>, det_mode = False,
             ham_kin = ham_kinetic one_site_model,
             lamb = arcosh (exp (u one_site_model * 1 / 2)),
             exp_k = expm_diag (mat_scale (1 * 1) (ham_kinetic one_site_model)),
             exp_k_inv = expm_diag (mat_scale (1 * 1) (ham_kinetic one_site_model))\<rparr>"
    using init_nonzero_u [OF assms nz ge] unfolding dt .
  then show ?thesis
    unfolding lam ns ek one_site_def .
qed

lemma two_sites_init:
  "LatticeQMC_init expm_sym2 two_sites_model 3 3 1 1 True \<lparr>cfg_time_steps = 3, field = f\<rparr>
     = Inr (two_sites f)"
proof -
  have nz: "u two_sites_model \<noteq> 0" by (simp add: two_sites_model_def)
  have lam: "arcosh (exp (u two_sites_model * 1 / 2)) = ln 2"
    using one_site_lamb by (simp add: two_sites_model_def)
  have ek: "expm_sym2 (mat_scale (1 * 1) [[0, - ln 2], [- ln 2, 0]]) =
              [[5 / 4, - (3 / 4)], [- (3 / 4), 5 / 4]]"
    by (simp add: expm_sym2_def mat_scale_def cosh_ln_real sinh_ln_real)
  have ns: "model_n_sites two_sites_model = 2"
    "ham_kinetic two_sites_model = [[0, - ln 2], [- ln 2, 0]]"
    by (simp_all add: two_sites_model_def)
  have dt: "3 / real 3 = (1 :: real)" by simp
  have ge: "1 \<le> exp (u two_sites_model * (3 / real 3) / 2)"
    unfolding dt by (simp add: two_sites_model_def)
  have "LatticeQMC_init expm_sym2 two_sites_model 3 3 1 1 True
          \<lparr>cfg_time_steps = 3, field = f\<rparr> =
        Inr \<lparr>dtau = 1, time_steps = 3, warm_sweeps = 1, meas_sweeps = 1,
             n_sites = model_n_sites two_sites_model,
             config = \<lparr>cfg_time_steps = 3, field = f\<rparr>, det_mode = True,
             ham_kin = ham_kinetic two_sites_model,
             lamb = arcosh (exp (u two_sites_model * 1 / 2)),
             exp_k = expm_sym2 (mat_scale (1 * 1) (ham_kinetic two_sites_model)),
             exp_k_inv = expm_sym2 (mat_scale (1 * 1) (ham_kinetic two_sites_model))\<rparr>"
    using init_nonzero_u [OF _ nz ge, of expm_sym2 1 1 True "\<lparr>cfg_time_steps = 3, field = f\<rparr>"]
    unfolding dt by simp
  then show ?thesis
    unfolding lam ns ek two_sites_def .
qed

text \<open>
  Two flips of the same entry restore the configuration, which is how
  \<open>measure_loop_det\<close> undoes a rejected move: a rejected step leaves the chain as it was.
\<close>

lemma flip_twice: "R[l := - (R[l := - (R ! l)] ! l)] = (R :: int list)"
proof (cases "l < length R")
  case True
  then show ?thesis by simp
next
  case False
  then have "length R \<le> l" by simp
  then show ?thesis by (simp add: list_update_beyond)
qed

lemma update_twice: "update (update c i l) i l = c"
proof (cases "i < length (field c)")
  case True
  then show ?thesis
    by (simp add: update_def flip_twice)
next
  case False
  then have "length (field c) \<le> i" by simp
  then show ?thesis by (simp add: update_def list_update_beyond)
qed

lemma measure_det_step_rejected:
  assumes "accept r (det_product (lqmc_compute_m_cyclic (s\<lparr>config := update (dc_config ch) i l\<rparr>) l))
             (dc_old ch) = Inr False"
  shows "measure_det_step s ch i l r = Inr ch"
  using assms by (simp add: measure_det_step_def Let_def update_twice)

lemma exp_two_ln_two: "exp (2 * ln 2 :: real) = 4"
proof -
  have "exp (2 * ln 2 :: real) = exp (ln 2) * exp (ln 2)"
    by (simp only: mult_2 exp_add)
  then show ?thesis by simp
qed

lemmas run_simps = one_site_def lqmc_simps array_simps exp_minus exp_two_ln_two Let_def

subsection \<open>The loops and their histories\<close>

lemma measure_steps_history:
  "measure_steps s rand its ch gu gd k =
     (case measure_history_from s rand k its ch of Inl e \<Rightarrow> Inl e
      | Inr chs \<Rightarrow> Inr (fold (\<lambda>T a. iadd_tensor a T) (map g_tmp_up chs) gu,
                        fold (\<lambda>T a. iadd_tensor a T) (map g_tmp_dn chs) gd,
                        k + length chs))"
proof (induction its arbitrary: ch gu gd k)
  case Nil
  show ?case by simp
next
  case (Cons it its)
  obtain sweep i l where it: "it = (sweep, i, l)" by (cases it) auto
  show ?case
  proof (cases "measure_step s ch i l (rand k)")
    case (Inl e)
    then show ?thesis by (simp add: it)
  next
    case (Inr ch1)
    then show ?thesis
      by (simp add: it Cons.IH split: sum.splits)
  qed
qed

lemma measure_history_from_length:
  "measure_history_from s rand k its ch = Inr chs \<Longrightarrow> length chs = length its"
proof (induction its arbitrary: ch k chs)
  case Nil
  then show ?case by simp
next
  case (Cons it its)
  obtain sweep i l where it: "it = (sweep, i, l)" by (cases it) auto
  from Cons.prems show ?case
    by (auto simp: it split: sum.splits dest: Cons.IH)
qed

lemma length_loop_generator:
  "length (loop_generator s sweeps) = sweeps * (n_sites s * cfg_time_steps (config s))"
  by (simp add: loop_generator_def length_concat comp_def sum_list_triv)


lemma measure_det_steps_history:
  "measure_det_steps s rand its ch tu td k =
     (case measure_det_history_from s rand k its ch of Inl e \<Rightarrow> Inl e
      | Inr h \<Rightarrow> Inr (fold (\<lambda>(l, G) tot. slice_add tot l G) (map (\<lambda>(l, c). (l, dc_g_up c ! l)) h) tu,
                      fold (\<lambda>(l, G) tot. slice_add tot l G) (map (\<lambda>(l, c). (l, dc_g_dn c ! l)) h) td,
                      k + length h))"
proof (induction its arbitrary: ch tu td k)
  case Nil
  show ?case by simp
next
  case (Cons it its)
  obtain i l where it: "it = (i, l)" by (cases it) auto
  show ?case
  proof (cases "measure_det_step s ch i l (rand k)")
    case (Inl e)
    then show ?thesis by (simp add: it)
  next
    case (Inr ch1)
    then show ?thesis
      by (simp add: it Cons.IH split: sum.splits)
  qed
qed

lemma measure_det_history_from_length:
  "measure_det_history_from s rand k its ch = Inr h \<Longrightarrow> length h = length its"
proof (induction its arbitrary: ch k h)
  case Nil
  then show ?case by simp
next
  case (Cons it its)
  obtain i l where it: "it = (i, l)" by (cases it) auto
  from Cons.prems show ?case
    by (auto simp: it split: sum.splits dest: Cons.IH)
qed

lemma length_det_iterations:
  "length (det_iterations s) = meas_sweeps s * (time_steps s * n_sites s)"
  by (simp add: det_iterations_def length_concat comp_def sum_list_triv)

lemma measure_gf_steps_history:
  "measure_gf_steps expm model dt lam rand its ch gu gd k =
     (case measure_gf_history_from expm model dt lam rand k its ch of Inl e \<Rightarrow> Inl e
      | Inr chs \<Rightarrow> Inr (fold (\<lambda>T a. iadd_matrix a T) (map mg_tmp_up chs) gu,
                        fold (\<lambda>T a. iadd_matrix a T) (map mg_tmp_dn chs) gd,
                        k + length chs))"
proof (induction its arbitrary: ch gu gd k)
  case Nil
  show ?case by simp
next
  case (Cons it its)
  obtain i l where it: "it = (i, l)" by (cases it) auto
  show ?case
  proof (cases "measure_gf_step expm model dt lam ch i l (rand k)")
    case (Inl e)
    then show ?thesis by (simp add: it)
  next
    case (Inr ch1)
    then show ?thesis
      by (simp add: it Cons.IH split: sum.splits)
  qed
qed

lemma measure_gf_history_from_length:
  "measure_gf_history_from expm model dt lam rand k its ch = Inr chs \<Longrightarrow> length chs = length its"
proof (induction its arbitrary: ch k chs)
  case Nil
  then show ?case by simp
next
  case (Cons it its)
  obtain i l where it: "it = (i, l)" by (cases it) auto
  from Cons.prems show ?case
    by (auto simp: it split: sum.splits dest: Cons.IH)
qed

lemma length_gf_iterations:
  "length (gf_iterations model c sweeps) = sweeps * (model_n_sites model * cfg_time_steps c)"
  by (simp add: gf_iterations_def length_concat comp_def sum_list_triv)

lemma measure_loop_history:
  "measure_loop s rand =
     (case measure_history s rand of Inl e \<Rightarrow> Inl e
      | Inr chs \<Rightarrow>
          if chs = [] then Inl NonFinite
          else Inr (div_tensor (sum_tensors (map g_tmp_up chs)) (length chs),
                    div_tensor (sum_tensors (map g_tmp_dn chs)) (length chs)))"
  by (simp add: measure_loop_def measure_totals_def measure_history_def sum_tensors_def
      measure_steps_history split: sum.splits)

lemma measure_loop_det_history:
  "measure_loop_det s rand =
     (case measure_det_history s rand of Inl e \<Rightarrow> Inl e
      | Inr h \<Rightarrow>
          if h = [] then Inl NonFinite
          else Inr (det_normalise (length h) (time_steps s)
                      (sum_slices (time_steps s) (n_sites s) (map (\<lambda>(l, c). (l, dc_g_up c ! l)) h)),
                    det_normalise (length h) (time_steps s)
                      (sum_slices (time_steps s) (n_sites s) (map (\<lambda>(l, c). (l, dc_g_dn c ! l)) h))))"
  by (simp add: measure_loop_det_def measure_det_totals_def measure_det_history_def
      sum_slices_def measure_det_steps_history split: sum.splits)

lemma measure_gf_history_eq:
  "measure_gf expm model c dt lam sweeps rand =
     (case measure_gf_history expm model c dt lam sweeps rand of Inl e \<Rightarrow> Inl e
      | Inr chs \<Rightarrow>
          if chs = [] then Inl NonFinite
          else Inr (div_matrix (sum_matrices (map mg_tmp_up chs)) (length chs),
                    div_matrix (sum_matrices (map mg_tmp_dn chs)) (length chs)))"
  by (simp add: measure_gf_def measure_gf_totals_def measure_gf_history_def sum_matrices_def
      measure_gf_steps_history split: sum.splits)

lemma measure_history_length:
  "measure_history s rand = Inr chs \<Longrightarrow>
   length chs = meas_sweeps s * (n_sites s * cfg_time_steps (config s))"
  by (auto simp: measure_history_def length_loop_generator split: sum.splits
      dest: measure_history_from_length)

lemma measure_det_history_length:
  "measure_det_history s rand = Inr h \<Longrightarrow>
   length h = meas_sweeps s * (time_steps s * n_sites s)"
  by (auto simp: measure_det_history_def length_det_iterations split: sum.splits
      dest: measure_det_history_from_length)

lemma measure_gf_history_length:
  "measure_gf_history expm model c dt lam sweeps rand = Inr chs \<Longrightarrow>
   length chs = sweeps * (model_n_sites model * cfg_time_steps c)"
  by (auto simp: measure_gf_history_def length_gf_iterations split: sum.splits
      dest: measure_gf_history_from_length)

lemma det_normalise_per_slice:
  assumes "0 < steps"
  shows "det_normalise (sweeps * (steps * n)) steps T =
           map (map (map (\<lambda>x. x / real (sweeps * n)))) T"
proof -
  have "x / real (sweeps * (steps * n)) * real steps = x / real (sweeps * n)" for x :: real
    using assms by simp
  then show ?thesis by (simp add: det_normalise_def)
qed


lemma fast_run:
  "measure_history (one_site 4 [[1, - 1, - 1, - 1]]) (\<lambda>k. 9 / 10) = Inr fast_run_history"
  by (simp add: measure_history_def measure_start_def fast_run_history_def loop_generator_def
      measure_step_def fast_ratio_def rank1_update_def run_simps eval_nat_numeral)

lemma gf_run:
  "measure_gf_history expm_diag one_site_model \<lparr>cfg_time_steps = 3, field = [[1, 1, 1]]\<rparr> 1 (ln 2) 1
       (\<lambda>k. if k = 1 then 9 / 10 else 1 / 2) = Inr gf_run_history"
  by (simp add: measure_gf_history_def gf_run_history_def gf_iterations_def measure_gf_start_def
      measure_gf_step_def compute_m_def expm_diag_def diag_of_def one_site_model_def
      rank1_update_def run_simps eval_nat_numeral)

lemma det_run:
  "measure_det_history ((one_site 2 [[1, 1]])\<lparr>meas_sweeps := 2\<rparr>)
       (\<lambda>k. if k = 1 then 1 / 2 else 99 / 100) = Inr det_run_history"
  by (simp add: measure_det_history_def det_run_history_def det_iterations_def
      measure_det_start_def measure_det_step_def accept_def run_simps eval_nat_numeral)


subsection \<open>The claims\<close>

text \<open>
  C1 (the code departs from the claim). One site, one slice, field \<open>[[1]]\<close>, flip at
  \<open>(0, 0)\<close>: the fast acceptance ratio \<open>d_up * d_dn\<close> of lines 374 to 379 is \<open>9/4\<close>, while
  the ratio of the determinant products of the \<open>M\<close> matrices recomputed for the flipped and
  the unflipped field is \<open>1\<close>.
\<close>

theorem fast_ratio_one_site:
  "LatticeQMC_init expm_diag one_site_model 1 1 1 1 False \<lparr>cfg_time_steps = 1, field = [[1]]\<rparr>
     = Inr (one_site 1 [[1]]) \<and>
   fast_ratio (one_site 1 [[1]]) 0 0 = Inr (9 / 4) \<and>
   update (config (one_site 1 [[1]])) 0 0 = config (one_site 1 [[- 1]]) \<and>
   det_product (lqmc_compute_m (one_site 1 [[- 1]])) /
     det_product (lqmc_compute_m (one_site 1 [[1]])) = 1"
proof -
  have "fast_ratio (one_site 1 [[1]]) 0 0 = Inr (9 / 4) \<and>
   update (config (one_site 1 [[1]])) 0 0 = config (one_site 1 [[- 1]]) \<and>
   det_product (lqmc_compute_m (one_site 1 [[- 1]])) /
     det_product (lqmc_compute_m (one_site 1 [[1]])) = 1"
    by (simp add: fast_ratio_def run_simps)
  then show ?thesis
    using one_site_init [of 1 "[[1]]"] by simp
qed

text \<open>
  C2 (the code departs from the claim). Same input, with the draw \<open>1/2\<close>, which is below
  the ratio \<open>9/4\<close>, so the flip is accepted: the rank-1 update turns the cached inverses
  \<open>[[2/3]]\<close> and \<open>[[1/3]]\<close> into \<open>[[8/9]]\<close> and \<open>[[1/9]]\<close>, while the inverses of the
  \<open>M\<close> matrices recomputed for the flipped field are \<open>[[1/3]]\<close> and \<open>[[2/3]]\<close>.
\<close>

theorem rank1_update_one_site:
  "measure_start (one_site 1 [[1]]) =
     Inr \<lparr>f_config = \<lparr>cfg_time_steps = 1, field = [[1]]\<rparr>,
          g_beta_up = [[2 / 3]], g_beta_dn = [[1 / 3]],
          g_tmp_up = [[[2 / 3]]], g_tmp_dn = [[[1 / 3]]]\<rparr> \<and>
   measure_step (one_site 1 [[1]])
       \<lparr>f_config = \<lparr>cfg_time_steps = 1, field = [[1]]\<rparr>,
        g_beta_up = [[2 / 3]], g_beta_dn = [[1 / 3]],
        g_tmp_up = [[[2 / 3]]], g_tmp_dn = [[[1 / 3]]]\<rparr> 0 0 (1 / 2) =
     Inr \<lparr>f_config = \<lparr>cfg_time_steps = 1, field = [[- 1]]\<rparr>,
          g_beta_up = [[8 / 9]], g_beta_dn = [[1 / 9]],
          g_tmp_up = [[[8 / 9]]], g_tmp_dn = [[[1 / 9]]]\<rparr> \<and>
   linalg_inv (lqmc_m (one_site 1 [[- 1]]) 1) = Inr [[1 / 3]] \<and>
   linalg_inv (lqmc_m (one_site 1 [[- 1]]) (- 1)) = Inr [[2 / 3]]"
  by (simp add: measure_start_def measure_step_def fast_ratio_def rank1_update_def run_simps)

text \<open>
  C3 (the code departs from the claim). One site, two slices, field \<open>[[1, 1]]\<close>, spin up:
  direct inversion gives \<open>[[4/5]]\<close> for \<open>_m\<close> and for \<open>_m_cyclic\<close> at either slice (on one
  site all the factors commute), but \<open>_gf_tau\<close> started from \<open>[[4/5]]\<close> returns
  \<open>[[1/5]]\<close> for one of the two slices.
\<close>

theorem gf_tau_one_site:
  "linalg_inv (lqmc_m (one_site 2 [[1, 1]]) 1) = Inr [[4 / 5]] \<and>
   lqmc_gf_tau (one_site 2 [[1, 1]]) [[4 / 5]] 1 = [[[1 / 5]], [[4 / 5]]] \<and>
   linalg_inv (lqmc_m_cyclic (one_site 2 [[1, 1]]) 1 0) = Inr [[4 / 5]] \<and>
   linalg_inv (lqmc_m_cyclic (one_site 2 [[1, 1]]) 1 1) = Inr [[4 / 5]]"
  by (simp add: run_simps numeral_2_eq_2)

text \<open>
  C4 (the code departs from the claim). One site, two slices, field \<open>[[1, 1]]\<close>, spin up,
  \<open>lamb = ln 2\<close>, propagator \<open>[[1]]\<close>: the product of the specification gives
  \<open>I + 2 * 2 = [[5]]\<close>; \<open>_m\<close> returns \<open>[[5/4]]\<close> and \<open>compute_m\<close> returns \<open>[[3]]\<close>.
\<close>

theorem m_builders_one_site:
  "lqmc_m (one_site 2 [[1, 1]]) 1 = [[5 / 4]] \<and>
   compute_m expm_diag [[0]] \<lparr>cfg_time_steps = 2, field = [[1, 1]]\<rparr> (ln 2) 1 1 = [[3]] \<and>
   M_spec [[1]] (ln 2) \<lparr>cfg_time_steps = 2, field = [[1, 1]]\<rparr> 1 = [[5]]"
  by (simp add: run_simps compute_m_def expm_diag_def diag_of_def M_spec_def B_spec_def
      numeral_2_eq_2)

text \<open>
  C5 (the code departs from the claim). Two sites with hopping, three slices, field
  \<open>[[1, -1, -1], [-1, -1, 1]]\<close>, spin up: the determinant of \<open>_m\<close> is \<open>85/4\<close>, the
  determinant of \<open>_m_cyclic\<close> at slice \<open>0\<close> is \<open>1765/64\<close>.
\<close>

theorem det_m_cyclic_two_sites:
  "LatticeQMC_init expm_sym2 two_sites_model 3 3 1 1 True
       \<lparr>cfg_time_steps = 3, field = [[1, - 1, - 1], [- 1, - 1, 1]]\<rparr> =
     Inr (two_sites [[1, - 1, - 1], [- 1, - 1, 1]]) \<and>
   linalg_det (lqmc_m (two_sites [[1, - 1, - 1], [- 1, - 1, 1]]) 1) = 85 / 4 \<and>
   linalg_det (lqmc_m_cyclic (two_sites [[1, - 1, - 1], [- 1, - 1, 1]]) 1 0) = 1765 / 64"
proof -
  have "linalg_det (lqmc_m (two_sites [[1, - 1, - 1], [- 1, - 1, 1]]) 1) = 85 / 4"
    by (simp add: two_sites_def lqmc_simps array_simps exp_minus upt_rec numeral_eq_Suc)
  moreover
  have "linalg_det (lqmc_m_cyclic (two_sites [[1, - 1, - 1], [- 1, - 1, 1]]) 1 0) = 1765 / 64"
    by (simp add: two_sites_def lqmc_simps array_simps exp_minus upt_rec numeral_eq_Suc)
  ultimately show ?thesis
    using two_sites_init [of "[[1, - 1, - 1], [- 1, - 1, 1]]"] by blast
qed

text \<open>
  C6 (the code departs from the claim). For \<open>ham_kin = [[ln 2]]\<close> and \<open>dtau = 1\<close> the
  constructor caches \<open>exp_k = [[2]]\<close> and \<open>exp_k_inv = [[2]]\<close>; the exponential of
  \<open>- dtau * ham_kin\<close> is \<open>[[1/2]]\<close>, and the product of the two cached matrices is
  \<open>[[4]]\<close>, not the identity \<open>[[1]]\<close>.
\<close>

theorem init_propagators:
  "LatticeQMC_init expm_diag \<lparr>u = 0, model_n_sites = 1, ham_kinetic = [[ln 2]]\<rparr> 1 1 1 1 False
      \<lparr>cfg_time_steps = 1, field = [[1]]\<rparr> =
     Inr \<lparr>dtau = 1, time_steps = 1, warm_sweeps = 1, meas_sweeps = 1, n_sites = 1,
          config = \<lparr>cfg_time_steps = 1, field = [[1]]\<rparr>, det_mode = False,
          ham_kin = [[ln 2]], lamb = 1, exp_k = [[2]], exp_k_inv = [[2]]\<rparr> \<and>
   expm_diag (mat_scale (- 1) [[ln 2]]) = [[1 / 2]] \<and>
   dot [[2]] [[2]] = [[4]] \<and> eye 1 = [[1]]"
  by (simp add: LatticeQMC_init_def expm_diag_def array_simps exp_minus)

text \<open>
  C7 (the code departs from the claim). \<open>warmup_loop_det\<close> on one site and two slices,
  field \<open>[[1, 1]]\<close>, one sweep, every draw \<open>9/10\<close>. Both trial flips have ratio \<open>16/25\<close>
  and are rejected. After the first rejection \<open>self.config\<close> and \<open>old_config\<close> are the
  same object (address 1), so the second trial flip at \<open>(0, 1)\<close> changes the snapshot
  too, and after its rejection the field is \<open>[[1, -1]]\<close>, not the \<open>[[1, 1]]\<close> it was
  before that flip.
\<close>

theorem warmup_loop_det_two_rejections:
  "warmup_det_start (one_site 2 [[1, 1]]) =
     \<lparr>store = [\<lparr>cfg_time_steps = 2, field = [[1, 1]]\<rparr>, \<lparr>cfg_time_steps = 2, field = [[1, 1]]\<rparr>],
      self_config = 0, old_config = 1, w_old = 25 / 4, w_acc = False\<rparr> \<and>
   warmup_det_step (one_site 2 [[1, 1]])
     \<lparr>store = [\<lparr>cfg_time_steps = 2, field = [[1, 1]]\<rparr>, \<lparr>cfg_time_steps = 2, field = [[1, 1]]\<rparr>],
      self_config = 0, old_config = 1, w_old = 25 / 4, w_acc = False\<rparr> 0 0 (9 / 10) =
     Inr \<lparr>store = [\<lparr>cfg_time_steps = 2, field = [[- 1, 1]]\<rparr>, \<lparr>cfg_time_steps = 2, field = [[1, 1]]\<rparr>],
          self_config = 1, old_config = 1, w_old = 25 / 4, w_acc = False\<rparr> \<and>
   warmup_det_step (one_site 2 [[1, 1]])
     \<lparr>store = [\<lparr>cfg_time_steps = 2, field = [[- 1, 1]]\<rparr>, \<lparr>cfg_time_steps = 2, field = [[1, 1]]\<rparr>],
      self_config = 1, old_config = 1, w_old = 25 / 4, w_acc = False\<rparr> 0 1 (9 / 10) =
     Inr \<lparr>store = [\<lparr>cfg_time_steps = 2, field = [[- 1, 1]]\<rparr>, \<lparr>cfg_time_steps = 2, field = [[1, - 1]]\<rparr>],
          self_config = 1, old_config = 1, w_old = 25 / 4, w_acc = False\<rparr> \<and>
   warmup_loop_det (one_site 2 [[1, 1]]) (\<lambda>k. 9 / 10) =
     Inr \<lparr>store = [\<lparr>cfg_time_steps = 2, field = [[- 1, 1]]\<rparr>, \<lparr>cfg_time_steps = 2, field = [[1, - 1]]\<rparr>],
          self_config = 1, old_config = 1, w_old = 25 / 4, w_acc = False\<rparr> \<and>
   current \<lparr>store = [\<lparr>cfg_time_steps = 2, field = [[- 1, 1]]\<rparr>, \<lparr>cfg_time_steps = 2, field = [[1, - 1]]\<rparr>],
            self_config = 1, old_config = 1, w_old = 25 / 4, w_acc = False\<rparr> =
     \<lparr>cfg_time_steps = 2, field = [[1, - 1]]\<rparr>"
  by (simp add: warmup_det_start_def warmup_det_step_def warmup_loop_det_def loop_generator_def
      current_def accept_def run_simps numeral_2_eq_2)

text \<open>
  C8, as the claim states it, fails for \<open>measure_loop_det\<close>: on one site and two slices
  with one sweep and two rejected moves the accumulated totals are \<open>[[[0]], [[4/5]]]\<close>
  and \<open>[[[0]], [[1/5]]]\<close> after \<open>number = 2\<close> iterations, and the function returns these
  very arrays, not the totals divided by \<open>2\<close>.
\<close>

theorem measure_loop_det_returns_totals:
  "measure_det_totals (one_site 2 [[1, 1]]) (\<lambda>k. 9 / 10) =
     Inr ([[[0]], [[4 / 5]]], [[[0]], [[1 / 5]]], 2) \<and>
   measure_loop_det (one_site 2 [[1, 1]]) (\<lambda>k. 9 / 10) =
     Inr ([[[0]], [[4 / 5]]], [[[0]], [[1 / 5]]]) \<and>
   measure_loop_det (one_site 2 [[1, 1]]) (\<lambda>k. 9 / 10) \<noteq>
     Inr (map (map (map (\<lambda>x. x / real 2))) [[[0]], [[4 / 5]]],
          map (map (map (\<lambda>x. x / real 2))) [[[0]], [[1 / 5]]])"
  by (simp add: measure_loop_det_def measure_det_totals_def det_iterations_def
      measure_det_start_def measure_det_step_def accept_def slice_add_def det_normalise_def
      run_simps numeral_2_eq_2)

text \<open>
  C8, amended. Each of the three measurement loops returns the sum of one contribution per
  iteration of its history, normalised; the history has one entry for every
  \<open>(sweep, site, slice)\<close> triple, accepted or not, so its length is the product of the
  numbers of sweeps, sites and slices. \<open>measure_loop\<close> and \<open>measure_gf\<close> divide the sum
  by that length. \<open>measure_loop_det\<close> adds the contribution of an iteration to the slice
  of that iteration only and multiplies the quotient by the number of slices: each
  entry is divided by \<open>sweeps * sites\<close>, the number of iterations at one slice. With no
  iteration at all the quotient is not a number.
\<close>

theorem measurement_normalisation:
  "measure_loop s rand =
     (case measure_history s rand of Inl e \<Rightarrow> Inl e
      | Inr chs \<Rightarrow>
          if chs = [] then Inl NonFinite
          else Inr (div_tensor (sum_tensors (map g_tmp_up chs)) (length chs),
                    div_tensor (sum_tensors (map g_tmp_dn chs)) (length chs))) \<and>
   (measure_history s rand = Inr chs \<longrightarrow>
      length chs = meas_sweeps s * (n_sites s * cfg_time_steps (config s))) \<and>
   measure_gf expm model c dt lam sweeps rand =
     (case measure_gf_history expm model c dt lam sweeps rand of Inl e \<Rightarrow> Inl e
      | Inr ghs \<Rightarrow>
          if ghs = [] then Inl NonFinite
          else Inr (div_matrix (sum_matrices (map mg_tmp_up ghs)) (length ghs),
                    div_matrix (sum_matrices (map mg_tmp_dn ghs)) (length ghs))) \<and>
   (measure_gf_history expm model c dt lam sweeps rand = Inr ghs \<longrightarrow>
      length ghs = sweeps * (model_n_sites model * cfg_time_steps c)) \<and>
   measure_loop_det s rand =
     (case measure_det_history s rand of Inl e \<Rightarrow> Inl e
      | Inr h \<Rightarrow>
          if h = [] then Inl NonFinite
          else Inr (det_normalise (length h) (time_steps s)
                      (sum_slices (time_steps s) (n_sites s)
                         (map (\<lambda>(l, c). (l, dc_g_up c ! l)) h)),
                    det_normalise (length h) (time_steps s)
                      (sum_slices (time_steps s) (n_sites s)
                         (map (\<lambda>(l, c). (l, dc_g_dn c ! l)) h)))) \<and>
   (measure_det_history s rand = Inr dhs \<longrightarrow>
      length dhs = meas_sweeps s * (time_steps s * n_sites s) \<and>
      (dhs \<noteq> [] \<longrightarrow>
         det_normalise (length dhs) (time_steps s) T =
           map (map (map (\<lambda>x. x / real (meas_sweeps s * n_sites s)))) T))"
proof -
  have det: "length dhs = meas_sweeps s * (time_steps s * n_sites s) \<and>
      (dhs \<noteq> [] \<longrightarrow>
         det_normalise (length dhs) (time_steps s) T =
           map (map (map (\<lambda>x. x / real (meas_sweeps s * n_sites s)))) T)"
    if h: "measure_det_history s rand = Inr dhs"
  proof -
    have len: "length dhs = meas_sweeps s * (time_steps s * n_sites s)"
      using h by (rule measure_det_history_length)
    have "det_normalise (length dhs) (time_steps s) T =
           map (map (map (\<lambda>x. x / real (meas_sweeps s * n_sites s)))) T" if "dhs \<noteq> []"
    proof -
      from that len have "0 < time_steps s" by (cases "time_steps s") auto
      then show ?thesis unfolding len by (rule det_normalise_per_slice)
    qed
    with len show ?thesis by blast
  qed
  show ?thesis
    using measure_loop_history [of s rand] measure_gf_history_eq [of expm model c dt lam sweeps rand]
      measure_loop_det_history [of s rand] measure_history_length [of s rand chs]
      measure_gf_history_length [of expm model c dt lam sweeps rand ghs] det
    by blast
qed

theorem measurement_normalisation_witness:
  "measure_history (one_site 4 [[1, - 1, - 1, - 1]]) (\<lambda>k. 9 / 10) = Inr fast_run_history \<and>
   length fast_run_history =
     meas_sweeps (one_site 4 [[1, - 1, - 1, - 1]]) *
       (n_sites (one_site 4 [[1, - 1, - 1, - 1]]) *
        cfg_time_steps (config (one_site 4 [[1, - 1, - 1, - 1]]))) \<and>
   length fast_run_history = 4 \<and>
   measure_loop (one_site 4 [[1, - 1, - 1, - 1]]) (\<lambda>k. 9 / 10) =
     Inr (Array [[[922 / 221]], [[461 / 442]], [[461 / 1768]], [[16 / 221]]],
          Array [[[1837 / 14144]], [[1837 / 3536]], [[1837 / 884]], [[205 / 221]]]) \<and>
   measure_gf_history expm_diag one_site_model \<lparr>cfg_time_steps = 3, field = [[1, 1, 1]]\<rparr> 1 (ln 2) 1
       (\<lambda>k. if k = 1 then 9 / 10 else 1 / 2) = Inr gf_run_history \<and>
   length gf_run_history = 1 * (model_n_sites one_site_model * 3) \<and>
   length gf_run_history = 3 \<and>
   measure_gf expm_diag one_site_model \<lparr>cfg_time_steps = 3, field = [[1, 1, 1]]\<rparr> 1 (ln 2) 1
       (\<lambda>k. if k = 1 then 9 / 10 else 1 / 2) = Inr (Array [[3 / 5]], Array [[2 / 5]]) \<and>
   measure_det_history ((one_site 2 [[1, 1]])\<lparr>meas_sweeps := 2\<rparr>)
       (\<lambda>k. if k = 1 then 1 / 2 else 99 / 100) = Inr det_run_history \<and>
   length det_run_history = 2 * (2 * 1) \<and>
   measure_loop_det ((one_site 2 [[1, 1]])\<lparr>meas_sweeps := 2\<rparr>)
       (\<lambda>k. if k = 1 then 1 / 2 else 99 / 100) =
     Inr ([[[1 / 2]], [[1 / 2]]], [[[1 / 2]], [[1 / 2]]]) \<and>
   det_normalise 4 2 [[[1]], [[1]]] = map (map (map (\<lambda>x. x / real (2 * 1)))) [[[1]], [[1]]]"
proof -
  let ?s1 = "one_site 4 [[1, - 1, - 1, - 1]]"
  let ?r1 = "\<lambda>k :: nat. 9 / 10 :: real"
  let ?c2 = "\<lparr>cfg_time_steps = 3, field = [[1, 1, 1]]\<rparr>"
  let ?r2 = "\<lambda>k :: nat. if k = 1 then 9 / 10 else 1 / 2 :: real"
  let ?s3 = "(one_site 2 [[1, 1]])\<lparr>meas_sweeps := 2\<rparr>"
  let ?r3 = "\<lambda>k :: nat. if k = 1 then 1 / 2 else 99 / 100 :: real"
  note A = measurement_normalisation [where s = ?s1 and rand = ?r1 and chs = fast_run_history]
  note B = measurement_normalisation [where expm = expm_diag and model = one_site_model
      and c = ?c2 and dt = 1 and lam = "ln 2" and sweeps = 1 and rand = ?r2
      and ghs = gf_run_history]
  note C = measurement_normalisation [where s = ?s3 and rand = ?r3 and dhs = det_run_history
      and T = "[[[1]], [[1]]]"]
  have f1: "meas_sweeps ?s1 = 1" "n_sites ?s1 = 1" "cfg_time_steps (config ?s1) = 4"
    by (simp_all add: one_site_def)
  have f3: "meas_sweeps ?s3 = 2" "n_sites ?s3 = 1" "time_steps ?s3 = 2"
    by (simp_all add: one_site_def)
  have n1: "length fast_run_history = 4" by (simp add: fast_run_history_def)
  have n2: "length gf_run_history = 3" by (simp add: gf_run_history_def)
  have n3: "length det_run_history = 4" "det_run_history \<noteq> []"
    by (simp_all add: det_run_history_def)
  have a1: "measure_loop ?s1 ?r1 =
     Inr (Array [[[922 / 221]], [[461 / 442]], [[461 / 1768]], [[16 / 221]]],
          Array [[[1837 / 14144]], [[1837 / 3536]], [[1837 / 884]], [[205 / 221]]])"
    using A [THEN conjunct1, unfolded fast_run]
    by (simp add: fast_run_history_def sum_tensors_def tensor_add_def mat_add_def)
  have a2: "length fast_run_history =
     meas_sweeps ?s1 * (n_sites ?s1 * cfg_time_steps (config ?s1))"
    using A [THEN conjunct2, THEN conjunct1, unfolded fast_run] by simp
  have b1: "measure_gf expm_diag one_site_model ?c2 1 (ln 2) 1 ?r2 =
     Inr (Array [[3 / 5]], Array [[2 / 5]])"
    using B [THEN conjunct2, THEN conjunct2, THEN conjunct1, unfolded gf_run]
    by (simp add: gf_run_history_def sum_matrices_def mat_add_def)
  have b2: "length gf_run_history = 1 * (model_n_sites one_site_model * 3)"
    using B [THEN conjunct2, THEN conjunct2, THEN conjunct2, THEN conjunct1, unfolded gf_run]
    by simp
  have c1: "measure_loop_det ?s3 ?r3 = Inr ([[[1 / 2]], [[1 / 2]]], [[[1 / 2]], [[1 / 2]]])"
    using C [THEN conjunct2, THEN conjunct2, THEN conjunct2, THEN conjunct2, THEN conjunct1,
        unfolded det_run f3]
    by (simp add: det_run_history_def sum_slices_def slice_add_def det_normalise_def zeros_def
        mat_add_def eval_nat_numeral)
  have c2: "length det_run_history = 2 * (2 * 1) \<and>
     det_normalise 4 2 [[[1]], [[1]]] = map (map (map (\<lambda>x. x / real (2 * 1)))) [[[1]], [[1]]]"
    using C [THEN conjunct2, THEN conjunct2, THEN conjunct2, THEN conjunct2, THEN conjunct2,
        unfolded det_run f3] n3
    by simp
  show ?thesis
    using a1 a2 b1 b2 c1 c2 n1 n2 fast_run gf_run det_run by blast
qed

text \<open>
  C9 (the code departs from the claim). For a ring of four sites with \<open>U = 4\<close>, \<open>t = 1\<close>,
  \<open>mu = 0\<close> the array that \<open>buildK\<close> assembles has \<open>+t\<close>, not \<open>-t\<close>, at every adjacent
  pair, and the call returns \<open>None\<close> instead of the array.
\<close>

theorem buildK_four_sites:
  "buildGraph 4 = Inr ([(0, 1), (1, 2), (2, 3), (3, 0)], [0, 1, 2, 3]) \<and>
   buildK_array \<lparr>L = 4, dim = 1, U = 4, t = 1, mu = 0,
                 graph = ([(0, 1), (1, 2), (2, 3), (3, 0)], [0, 1, 2, 3])\<rparr>
     = Inr [[2, 1, 0, 1], [1, 2, 1, 0], [0, 1, 2, 1], [1, 0, 1, 2]] \<and>
   buildK \<lparr>L = 4, dim = 1, U = 4, t = 1, mu = 0,
           graph = ([(0, 1), (1, 2), (2, 3), (3, 0)], [0, 1, 2, 3])\<rparr> = Inr None"
  by (simp add: buildGraph_def buildK_def buildK_array_def zeros_def setitem_def
      numeral_eq_Suc upt_rec)




end
